theory Spec2Isabelle
  imports Complex_Main "HOL-Library.Sublist" "HOL-Library.AList"
begin

section \<open>Python strings\<close>

text \<open>
  A Python \<open>str\<close> is modelled as a \<open>string\<close> whose characters are the code points
  0..255 (Latin-1).  The character classes below are those of CPython's \<open>str\<close> methods
  restricted to that range.
\<close>

definition isspace :: "char \<Rightarrow> bool" where
  \<comment> \<open>\<open>str.isspace\<close>: TAB, LF, VT, FF, CR, FS, GS, RS, US, SPACE, NEL, NBSP.\<close>
  "isspace c =
     (let n = (of_char c :: nat)
      in (9 \<le> n \<and> n \<le> 13) \<or> (28 \<le> n \<and> n \<le> 32) \<or> n = 133 \<or> n = 160)"

definition is_linebreak :: "char \<Rightarrow> bool" where
  \<comment> \<open>The line boundaries of \<open>str.splitlines\<close>: LF, VT, FF, CR, FS, GS, RS, NEL.\<close>
  "is_linebreak c =
     (let n = (of_char c :: nat)
      in (10 \<le> n \<and> n \<le> 13) \<or> (28 \<le> n \<and> n \<le> 30) \<or> n = 133)"

definition isdecimal :: "char \<Rightarrow> bool" where
  \<comment> \<open>The characters \<open>int\<close> accepts as digits: 0..9.\<close>
  "isdecimal c = (let n = (of_char c :: nat) in 48 \<le> n \<and> n \<le> 57)"

definition isdigit :: "char \<Rightarrow> bool" where
  \<comment> \<open>\<open>str.isdigit\<close>: 0..9 and the superscripts two, three and one (178, 179, 185).\<close>
  "isdigit c = (isdecimal c \<or> (let n = (of_char c :: nat) in n = 178 \<or> n = 179 \<or> n = 185))"

definition lower_char :: "char \<Rightarrow> char" where
  "lower_char c =
     (let n = (of_char c :: nat)
      in if (65 \<le> n \<and> n \<le> 90) \<or> (192 \<le> n \<and> n \<le> 222 \<and> n \<noteq> 215)
         then char_of (n + 32) else c)"

definition lower :: "string \<Rightarrow> string" where
  \<comment> \<open>\<open>str.lower\<close>\<close>
  "lower s = map lower_char s"

definition strip :: "string \<Rightarrow> string" where
  \<comment> \<open>\<open>str.strip()\<close>: leading and trailing whitespace removed.\<close>
  "strip s = rev (dropWhile isspace (rev (dropWhile isspace s)))"

definition startswith :: "string \<Rightarrow> string \<Rightarrow> bool" where
  \<comment> \<open>\<open>s.startswith(p)\<close>\<close>
  "startswith s p = prefix p s"

fun splitlines_from :: "string \<Rightarrow> string \<Rightarrow> string list" where
  "splitlines_from cur [] = (if cur = [] then [] else [cur])"
| "splitlines_from cur (c # cs) =
     (if c = CHR 0x0D \<and> cs \<noteq> [] \<and> hd cs = CHR 0x0A then cur # splitlines_from [] (tl cs)
      else if is_linebreak c then cur # splitlines_from [] cs
      else splitlines_from (cur @ [c]) cs)"

definition splitlines :: "string \<Rightarrow> string list" where
  \<comment> \<open>\<open>str.splitlines()\<close>: CR LF is one boundary; no empty last line.\<close>
  "splitlines s = splitlines_from [] s"

fun split_once :: "string \<Rightarrow> string \<Rightarrow> (string \<times> string) option" where
  \<comment> \<open>\<open>s.split(sep, 1)\<close> for a non-empty \<open>sep\<close>: \<open>None\<close> when \<open>sep\<close> does not occur
      (Python returns the one-element list \<open>[s]\<close>), else the text before and after the
      first occurrence.\<close>
  "split_once sep [] = None"
| "split_once sep (c # cs) =
     (if prefix sep (c # cs) then Some ([], drop (length sep) (c # cs))
      else map_option (\<lambda>(a, b). (c # a, b)) (split_once sep cs))"

definition contains :: "string \<Rightarrow> string \<Rightarrow> bool" where
  \<comment> \<open>\<open>sep in s\<close> for a non-empty \<open>sep\<close>\<close>
  "contains sep s = (split_once sep s \<noteq> None)"

fun split_ws_from :: "string \<Rightarrow> string \<Rightarrow> string list" where
  "split_ws_from cur [] = (if cur = [] then [] else [cur])"
| "split_ws_from cur (c # cs) =
     (if isspace c then (if cur = [] then split_ws_from [] cs else cur # split_ws_from [] cs)
      else split_ws_from (cur @ [c]) cs)"

definition split_ws :: "string \<Rightarrow> string list" where
  \<comment> \<open>\<open>str.split()\<close>: the maximal runs of non-whitespace characters.\<close>
  "split_ws s = split_ws_from [] s"

definition int_max_str_digits :: nat where
  \<comment> \<open>CPython's default limit on the length of a decimal string given to \<open>int\<close>.\<close>
  "int_max_str_digits = 4300"

definition digit_value :: "char \<Rightarrow> int" where
  "digit_value c = int (of_char c) - 48"

definition py_int :: "string \<Rightarrow> int option" where
  \<comment> \<open>\<open>int(s)\<close> for a string of \<open>isdigit\<close> characters, as \<open>score_lead\<close> calls it:
      \<open>None\<close> is ValueError (empty string, a superscript digit, too many digits).\<close>
  "py_int s =
     (if s \<noteq> [] \<and> list_all isdecimal s \<and> length s \<le> int_max_str_digits
      then Some (foldl (\<lambda>a c. 10 * a + digit_value c) 0 s)
      else None)"

section \<open>Values and lead records\<close>

text \<open>
  The values a lead dictionary holds: \<open>None\<close>, strings, integers, and NaN, the float that
  pandas puts in every empty cell of a column that exists.  A lead is a Python \<open>dict\<close>:
  an association list in insertion order.
\<close>

datatype pyval = PNone | PStr string | PInt int | PNaN

type_synonym lead = "(string \<times> pyval) list"

fun truthy :: "pyval \<Rightarrow> bool" where
  \<comment> \<open>\<open>bool(v)\<close>; NaN is a non-zero float, hence true.\<close>
  "truthy PNone = False"
| "truthy (PStr s) = (s \<noteq> [])"
| "truthy (PInt i) = (i \<noteq> 0)"
| "truthy PNaN = True"

definition py_or :: "pyval \<Rightarrow> pyval \<Rightarrow> pyval" where
  \<comment> \<open>\<open>a or b\<close>\<close>
  "py_or a b = (if truthy a then a else b)"

definition get :: "lead \<Rightarrow> string \<Rightarrow> pyval" where
  \<comment> \<open>\<open>lead.get(k)\<close>\<close>
  "get l k = (case map_of l k of None \<Rightarrow> PNone | Some v \<Rightarrow> v)"

definition get_default :: "lead \<Rightarrow> string \<Rightarrow> pyval \<Rightarrow> pyval" where
  \<comment> \<open>\<open>lead.get(k, d)\<close>\<close>
  "get_default l k d = (case map_of l k of None \<Rightarrow> d | Some v \<Rightarrow> v)"

definition setitem :: "lead \<Rightarrow> string \<Rightarrow> pyval \<Rightarrow> lead" where
  \<comment> \<open>\<open>lead[k] = v\<close>\<close>
  "setitem l k v = AList.update k v l"

section \<open>External capabilities\<close>

text \<open>
  The completion client, the random number generator and the SMTP server are outside the
  program.  Each is an oracle indexed by the number of calls made so far, so that any run
  is covered by some environment.  A completion call either returns text (\<open>Inr\<close>) or
  raises an exception whose \<open>str\<close> is the message (\<open>Inl\<close>).  The prompt a stage
  builds from the record is not modelled: no stage reads it back.  Only exceptions derived
  from \<open>Exception\<close> are modelled; the orchestrator catches no others.
\<close>

record env =
  llm_generate :: "nat \<Rightarrow> string + string"
  random_random :: "nat \<Rightarrow> rat"
  send_email :: "nat \<Rightarrow> string option"

record world =
  llm_calls :: nat
  rand_calls :: nat
  send_calls :: nat

definition generate :: "env \<Rightarrow> world \<Rightarrow> world \<times> (string + string)" where
  "generate E w = (w\<lparr>llm_calls := llm_calls w + 1\<rparr>, llm_generate E (llm_calls w))"

section \<open>Enrichment\<close>

definition parse_pairs :: "string \<Rightarrow> (string \<times> string) list" where
  \<comment> \<open>The loop of \<open>enrich_lead\<close> that fills the dictionary \<open>parsed\<close>.\<close>
  "parse_pairs out =
     foldl (\<lambda>parsed line.
              case split_once '':'' line of
                None \<Rightarrow> parsed
              | Some (k, v) \<Rightarrow> AList.update (strip k) (strip v) parsed)
           [] (splitlines out)"

definition parsed_get :: "(string \<times> string) list \<Rightarrow> string \<Rightarrow> pyval" where
  \<comment> \<open>\<open>parsed.get(k)\<close>\<close>
  "parsed_get parsed k = (case map_of parsed k of None \<Rightarrow> PNone | Some v \<Rightarrow> PStr v)"

definition parsed_get_default :: "(string \<times> string) list \<Rightarrow> string \<Rightarrow> string \<Rightarrow> pyval" where
  \<comment> \<open>\<open>parsed.get(k, d)\<close>\<close>
  "parsed_get_default parsed k d = (case map_of parsed k of None \<Rightarrow> PStr d | Some v \<Rightarrow> PStr v)"

definition enrich_fields :: "string \<Rightarrow> lead \<Rightarrow> lead" where
  \<comment> \<open>\<open>enrich_lead\<close> after the completion \<open>out\<close> has arrived.\<close>
  "enrich_fields out lead0 =
     (let parsed = parse_pairs out;
          l1 = setitem lead0 ''company''
                 (py_or (get lead0 ''company'')
                    (py_or (parsed_get parsed ''company'')
                       (py_or (get lead0 ''company'') (PStr ''''))));
          l2 = setitem l1 ''title''
                 (py_or (get l1 ''title'') (py_or (parsed_get parsed ''title'') (PStr '''')));
          l3 = setitem l2 ''industry''
                 (py_or (get l2 ''industry'') (py_or (parsed_get parsed ''industry'') (PStr '''')));
          l4 = setitem l3 ''location''
                 (py_or (get l3 ''location'') (py_or (parsed_get parsed ''location'') (PStr '''')));
          l5 = setitem l4 ''persona'' (parsed_get_default parsed ''persona'' ''Unknown'');
          l6 = setitem l5 ''persona_desc'' (parsed_get_default parsed ''persona_desc'' '''')
      in l6)"

definition enrich_lead :: "env \<Rightarrow> world \<Rightarrow> lead \<Rightarrow> world \<times> (string + lead)" where
  "enrich_lead E w lead0 =
     (case generate E w of
        (w1, Inl e) \<Rightarrow> (w1, Inl e)
      | (w1, Inr out) \<Rightarrow> (w1, Inr (enrich_fields out lead0)))"

section \<open>Scoring\<close>

fun score_lines :: "string list \<Rightarrow> int \<Rightarrow> string \<Rightarrow> string + (int \<times> string)" where
  \<comment> \<open>The loop of \<open>score_lead\<close> over the lines of the completion.  Unpacking a
      one-element list into \<open>_, r\<close> raises ValueError.\<close>
  "score_lines [] priority reason = Inr (priority, reason)"
| "score_lines (line # rest) priority reason =
     (let priority1 =
            (if startswith (strip (lower line)) ''priority''
             then (case py_int (filter isdigit line) of Some n \<Rightarrow> n | None \<Rightarrow> 3)
             else priority)
      in if startswith (strip (lower line)) ''reason''
         then (case split_once '':'' line of
                 None \<Rightarrow> Inl ''not enough values to unpack (expected 2, got 1)''
               | Some (u, r) \<Rightarrow> score_lines rest priority1 (strip r))
         else score_lines rest priority1 reason)"

definition score_fields :: "string \<Rightarrow> lead \<Rightarrow> string + lead" where
  \<comment> \<open>\<open>score_lead\<close> after the completion \<open>out\<close> has arrived.\<close>
  "score_fields out lead0 =
     (case score_lines (splitlines out) 3 [] of
        Inl e \<Rightarrow> Inl e
      | Inr (priority, reason) \<Rightarrow>
          Inr (setitem (setitem lead0 ''priority'' (PInt priority))
                 ''priority_reason'' (PStr reason)))"

definition score_lead :: "env \<Rightarrow> world \<Rightarrow> lead \<Rightarrow> world \<times> (string + lead)" where
  "score_lead E w lead0 =
     (case generate E w of
        (w1, Inl e) \<Rightarrow> (w1, Inl e)
      | (w1, Inr out) \<Rightarrow> (w1, score_fields out lead0))"

section \<open>Drafting\<close>

function str_nat :: "nat \<Rightarrow> string" where
  "str_nat n =
     (if n < 10 then [char_of (48 + n)]
      else str_nat (n div 10) @ [char_of (48 + n mod 10)])"
  by pat_completeness auto
termination
  by (relation "measure id") auto

declare str_nat.simps [simp del]

fun py_str :: "pyval \<Rightarrow> string" where
  \<comment> \<open>\<open>str(v)\<close>, as an f-string formats a field.\<close>
  "py_str PNone = ''None''"
| "py_str (PStr s) = s"
| "py_str (PInt i) = (if i < 0 then ''-'' @ str_nat (nat (- i)) else str_nat (nat i))"
| "py_str PNaN = ''nan''"

definition draft_fields :: "string \<Rightarrow> lead \<Rightarrow> lead" where
  \<comment> \<open>\<open>draft_email\<close> after the completion \<open>out\<close> has arrived.\<close>
  "draft_fields out lead0 =
     (let (subject, body) =
            (case split_once ''Subject:'' out of
               Some (u, parts) \<Rightarrow>
                 (case split_once ''Body:'' parts of
                    Some (subj, bod) \<Rightarrow> (strip subj, strip bod)
                  | None \<Rightarrow> (strip parts, []))
             | None \<Rightarrow> (''Quick note for '' @ py_str (get lead0 ''first_name''), strip out))
      in setitem (setitem lead0 ''email_subject'' (PStr subject)) ''email_body'' (PStr body))"

definition draft_email :: "env \<Rightarrow> world \<Rightarrow> lead \<Rightarrow> world \<times> (string + lead)" where
  "draft_email E w lead0 =
     (case generate E w of
        (w1, Inl e) \<Rightarrow> (w1, Inl e)
      | (w1, Inr out) \<Rightarrow> (w1, Inr (draft_fields out lead0)))"

section \<open>Delivery\<close>

definition key_error :: "string \<Rightarrow> string" where
  \<comment> \<open>\<open>str(KeyError(k))\<close>: the key in quotes.\<close>
  "key_error k = [CHR 0x27] @ k @ [CHR 0x27]"

definition deliver :: "env \<Rightarrow> world \<Rightarrow> lead \<Rightarrow> world \<times> lead" where
  \<comment> \<open>The inner \<open>try\<close> of \<open>main\<close>: the arguments are read inside it, so a missing key is
      a delivery failure as well.  \<open>send_email E k = None\<close> is a delivery that succeeded,
      \<open>Some detail\<close> one that raised.\<close>
  "deliver E w lead0 =
     (if map_of lead0 ''email_subject'' = None
      then (w, setitem lead0 ''status'' (PStr (''send_error: '' @ key_error ''email_subject'')))
      else if map_of lead0 ''email_body'' = None
      then (w, setitem lead0 ''status'' (PStr (''send_error: '' @ key_error ''email_body'')))
      else (w\<lparr>send_calls := send_calls w + 1\<rparr>,
            case send_email E (send_calls w) of
              None \<Rightarrow> setitem lead0 ''status'' (PStr ''sent'')
            | Some e \<Rightarrow> setitem lead0 ''status'' (PStr (''send_error: '' @ e))))"

section \<open>Response simulation\<close>

fun py_ge :: "pyval \<Rightarrow> int \<Rightarrow> string + bool" where
  \<comment> \<open>\<open>v >= k\<close> for an integer \<open>k\<close>; comparing a string or \<open>None\<close> raises TypeError.\<close>
  "py_ge (PInt i) k = Inr (k \<le> i)"
| "py_ge PNaN k = Inr False"
| "py_ge (PStr s) k =
     Inl (key_error ''>='' @ '' not supported between instances of '' @ key_error ''str''
          @ '' and '' @ key_error ''int'')"
| "py_ge PNone k =
     Inl (key_error ''>='' @ '' not supported between instances of '' @ key_error ''NoneType''
          @ '' and '' @ key_error ''int'')"

definition label_clean :: "string \<Rightarrow> string + string" where
  \<comment> \<open>\<open>label.splitlines()[0].strip().split()[0]\<close>; each index raises IndexError on an
      empty list.\<close>
  "label_clean label =
     (case splitlines label of
        [] \<Rightarrow> Inl ''list index out of range''
      | l # ls \<Rightarrow>
          (case split_ws (strip l) of
             [] \<Rightarrow> Inl ''list index out of range''
           | t # ts \<Rightarrow> Inr t))"

definition no_response :: "lead \<Rightarrow> lead" where
  "no_response lead0 =
     setitem (setitem (setitem lead0 ''status'' (PStr ''no_response''))
                ''response_text'' (PStr [])) ''response_category'' (PStr ''No Response'')"

definition replied_with :: "lead \<Rightarrow> string \<Rightarrow> string \<Rightarrow> lead" where
  "replied_with lead0 reply category =
     setitem (setitem (setitem lead0 ''status'' (PStr ''replied''))
                ''response_text'' (PStr reply)) ''response_category'' (PStr category)"

definition decide_simulate :: "env \<Rightarrow> world \<Rightarrow> pyval \<Rightarrow> world \<times> (string + bool)" where
  \<comment> \<open>The \<open>if\<close>/\<open>elif\<close> that sets \<open>simulate\<close>.  \<open>and\<close> draws a random number only
      when its left operand holds; the doubles below 0.8 are the doubles below 4/5.\<close>
  "decide_simulate E w p =
     (case py_ge p 4 of
        Inl e \<Rightarrow> (w, Inl e)
      | Inr ge \<Rightarrow>
          if ge then (w\<lparr>rand_calls := rand_calls w + 1\<rparr>,
                      Inr (random_random E (rand_calls w) < 4 / 5))
          else if p = PInt 3
          then (w\<lparr>rand_calls := rand_calls w + 1\<rparr>,
                Inr (random_random E (rand_calls w) < 1 / 4))
          else (w, Inr False))"

definition simulate_and_classify_responses ::
  "env \<Rightarrow> world \<Rightarrow> lead \<Rightarrow> world \<times> (string + lead)" where
  "simulate_and_classify_responses E w lead0 =
     (case decide_simulate E w (get_default lead0 ''priority'' (PInt 3)) of
        (w1, Inl e) \<Rightarrow> (w1, Inl e)
      | (w1, Inr simulate) \<Rightarrow>
          if simulate
          then (case generate E w1 of
                  (w2, Inl e) \<Rightarrow> (w2, Inl e)
                | (w2, Inr reply) \<Rightarrow>
                    (case generate E w2 of
                       (w3, Inl e) \<Rightarrow> (w3, Inl e)
                     | (w3, Inr label) \<Rightarrow>
                         (case label_clean label of
                            Inl e \<Rightarrow> (w3, Inl e)
                          | Inr category \<Rightarrow> (w3, Inr (replied_with lead0 reply category)))))
          else (w1, Inr (no_response lead0)))"

section \<open>The orchestrator\<close>

definition set_error :: "lead \<Rightarrow> string \<Rightarrow> lead" where
  \<comment> \<open>The handler \<open>except Exception as e\<close> of the record's \<open>try\<close>.\<close>
  "set_error lead0 e = setitem lead0 ''status'' (PStr (''error: '' @ e))"

definition process_lead :: "env \<Rightarrow> world \<Rightarrow> lead \<Rightarrow> world \<times> lead" where
  \<comment> \<open>One iteration of the loop of \<open>main\<close>.  Every stage raises before it writes to the
      record, so the handler sees the record as the last finished stage left it.\<close>
  "process_lead E w lead0 =
     (case enrich_lead E w lead0 of
        (w1, Inl e) \<Rightarrow> (w1, set_error lead0 e)
      | (w1, Inr l1) \<Rightarrow>
          (case score_lead E w1 l1 of
             (w2, Inl e) \<Rightarrow> (w2, set_error l1 e)
           | (w2, Inr l2) \<Rightarrow>
               (case draft_email E w2 l2 of
                  (w3, Inl e) \<Rightarrow> (w3, set_error l2 e)
                | (w3, Inr l3) \<Rightarrow>
                    (case deliver E w3 l3 of
                       (w4, l4) \<Rightarrow>
                         (case simulate_and_classify_responses E w4 l4 of
                            (w5, Inl e) \<Rightarrow> (w5, set_error l4 e)
                          | (w5, Inr l5) \<Rightarrow> (w5, l5))))))"

fun main_loop :: "env \<Rightarrow> world \<Rightarrow> lead list \<Rightarrow> world \<times> lead list" where
  \<comment> \<open>The loop of \<open>main\<close>; the second component is \<open>processed\<close>.\<close>
  "main_loop E w [] = (w, [])"
| "main_loop E w (lead0 # rows) =
     (case process_lead E w lead0 of
        (w1, l) \<Rightarrow> (case main_loop E w1 rows of (w2, ls) \<Rightarrow> (w2, l # ls)))"

section \<open>Data frames and the report\<close>

text \<open>
  A data frame is its column names and its rows; a cell a row has no value for is NaN.
  Floating point is not modelled: the floats are a type parameter, and the operations on
  them that the report needs are parameters too (the float pandas makes of an integer
  cell, which may raise, and of a non-empty string cell, the mean of a non-empty list of
  floats, and the float 0.0).  What does not depend on them is fixed: \<open>None\<close>, NaN and
  the empty string are NaN after \<open>pandas.to_numeric\<close>.
\<close>

record dataframe =
  columns :: "string list"
  records :: "lead list"

definition cell :: "lead \<Rightarrow> string \<Rightarrow> pyval" where
  "cell r c = (case map_of r c of None \<Rightarrow> PNaN | Some v \<Rightarrow> v)"

definition column :: "dataframe \<Rightarrow> string \<Rightarrow> pyval list" where
  \<comment> \<open>\<open>df[c]\<close> for a column that exists\<close>
  "column df c = map (\<lambda>r. cell r c) (records df)"

definition DataFrame :: "lead list \<Rightarrow> dataframe" where
  \<comment> \<open>\<open>pd.DataFrame(rows)\<close>: the columns are the keys, in order of first appearance.\<close>
  "DataFrame rows =
     \<lparr>columns = foldl (\<lambda>cols k. if k \<in> set cols then cols else cols @ [k]) []
                  (concat (map (map fst) rows)),
      records = rows\<rparr>"

definition add_column :: "dataframe \<Rightarrow> string \<Rightarrow> dataframe" where
  \<comment> \<open>\<open>if col not in df.columns: df[col] = ''\<close>\<close>
  "add_column df c =
     (if c \<in> set (columns df) then df
      else \<lparr>columns = columns df @ [c],
            records = map (\<lambda>r. setitem r c (PStr [])) (records df)\<rparr>)"

definition output_columns :: "string list" where
  "output_columns =
     [''persona'', ''persona_desc'', ''priority'', ''priority_reason'', ''email_subject'',
      ''email_body'', ''status'', ''response_text'', ''response_category'']"

definition to_dict_records :: "dataframe \<Rightarrow> lead list" where
  \<comment> \<open>\<open>df.to_dict(orient='records')\<close>\<close>
  "to_dict_records df = map (\<lambda>r. map (\<lambda>c. (c, cell r c)) (columns df)) (records df)"

datatype 'f avg = Avg 'f | AvgNaN

record 'f floats =
  float_of_int :: "int \<Rightarrow> string + 'f option"
  float_of_str :: "string \<Rightarrow> 'f option"
  float_mean :: "'f list \<Rightarrow> 'f"
  float_zero :: 'f

record 'f summary =
  total_leads :: nat
  sent :: nat
  replied :: nat
  avg_priority :: "'f avg"

fun to_numeric_cell :: "'f floats \<Rightarrow> pyval \<Rightarrow> string + 'f option" where
  \<comment> \<open>\<open>pd.to_numeric(_, errors='coerce')\<close> on one cell; \<open>Inr None\<close> is NaN.\<close>
  "to_numeric_cell F (PInt i) = float_of_int F i"
| "to_numeric_cell F (PStr s) = (if s = [] then Inr None else Inr (float_of_str F s))"
| "to_numeric_cell F PNaN = Inr None"
| "to_numeric_cell F PNone = Inr None"

fun to_numeric :: "'f floats \<Rightarrow> pyval list \<Rightarrow> string + 'f option list" where
  \<comment> \<open>\<open>pd.to_numeric(_, errors='coerce')\<close> on a column\<close>
  "to_numeric F [] = Inr []"
| "to_numeric F (v # vs) =
     (case to_numeric_cell F v of
        Inl e \<Rightarrow> Inl e
      | Inr x \<Rightarrow> (case to_numeric F vs of Inl e \<Rightarrow> Inl e | Inr xs \<Rightarrow> Inr (x # xs)))"

definition numeric_values :: "'f option list \<Rightarrow> 'f list" where
  "numeric_values ps = concat (map (\<lambda>p. case p of None \<Rightarrow> [] | Some v \<Rightarrow> [v]) ps)"

definition mean_skipna :: "'f floats \<Rightarrow> 'f option list \<Rightarrow> 'f avg" where
  \<comment> \<open>\<open>Series.mean(skipna=True)\<close>: NaN when no value is left.\<close>
  "mean_skipna F ps =
     (let vs = numeric_values ps in if vs = [] then AvgNaN else Avg (float_mean F vs))"

definition average_priority :: "'f floats \<Rightarrow> dataframe \<Rightarrow> string + 'f avg" where
  \<comment> \<open>The computation of \<open>avg_priority\<close> in \<open>generate_report\<close>.\<close>
  "average_priority F df =
     (if ''priority'' \<in> set (columns df)
      then (case to_numeric F (column df ''priority'') of
              Inl e \<Rightarrow> Inl e
            | Inr priorities \<Rightarrow>
                Inr (if priorities \<noteq> [] then mean_skipna F priorities
                     else Avg (float_zero F)))
      else Inr (Avg (float_zero F)))"

definition count_status :: "dataframe \<Rightarrow> string list \<Rightarrow> nat" where
  \<comment> \<open>\<open>df['status'].isin(names).sum()\<close>\<close>
  "count_status df names =
     length (filter (\<lambda>v. v \<in> set (map PStr names)) (column df ''status''))"

definition generate_report ::
  "env \<Rightarrow> world \<Rightarrow> 'f floats \<Rightarrow> dataframe \<Rightarrow> world \<times> (string + 'f summary)" where
  \<comment> \<open>The statistics of the report, and the completion call for the insights, which can
      raise.  The persona breakdown and the text written to the file are not modelled.\<close>
  "generate_report E w F df =
     (if ''status'' \<in> set (columns df)
      then (case average_priority F df of
              Inl e \<Rightarrow> (w, Inl e)
            | Inr average \<Rightarrow>
                (case generate E w of
                   (w1, Inl e) \<Rightarrow> (w1, Inl e)
                 | (w1, Inr insights) \<Rightarrow>
                     (w1, Inr \<lparr>total_leads = length (records df),
                               sent = count_status df [''sent'', ''replied''],
                               replied = count_status df [''replied''],
                               avg_priority = average\<rparr>)))
      else (w, Inl (key_error ''status'')))"

definition main ::
  "env \<Rightarrow> world \<Rightarrow> 'f floats \<Rightarrow> dataframe
     \<Rightarrow> world \<times> lead list \<times> (string + 'f summary)" where
  \<comment> \<open>\<open>main\<close> from the frame read from the CSV file on: the processed records, and the
      report or the exception that ends the run.\<close>
  "main E w F df =
     (case main_loop E w (to_dict_records (foldl add_column df output_columns)) of
        (w1, processed) \<Rightarrow>
          (case generate_report E w1 F (DataFrame processed) of
             (w2, rep) \<Rightarrow> (w2, processed, rep)))"

section \<open>Predicates of the specification\<close>

definition final_status :: "pyval \<Rightarrow> bool" where
  \<comment> \<open>\<open>no_response\<close>, \<open>replied\<close>, or a string that starts with \<open>error: \<close>\<close>
  "final_status v =
     (case v of
        PStr s \<Rightarrow> s = ''no_response'' \<or> s = ''replied'' \<or> startswith s ''error: ''
      | PNone \<Rightarrow> False | PInt i \<Rightarrow> False | PNaN \<Rightarrow> False)"

definition delivery_status :: "pyval \<Rightarrow> bool" where
  \<comment> \<open>\<open>sent\<close>, or a string that starts with \<open>send_error: \<close>\<close>
  "delivery_status v =
     (case v of
        PStr s \<Rightarrow> s = ''sent'' \<or> startswith s ''send_error: ''
      | PNone \<Rightarrow> False | PInt i \<Rightarrow> False | PNaN \<Rightarrow> False)"

definition priority_in_range :: "pyval \<Rightarrow> bool" where
  \<comment> \<open>an integer in [1,5]\<close>
  "priority_in_range v =
     (case v of
        PInt p \<Rightarrow> 1 \<le> p \<and> p \<le> 5
      | PNone \<Rightarrow> False | PStr s \<Rightarrow> False | PNaN \<Rightarrow> False)"

definition response_categories :: "string list" where
  "response_categories = [''Interested'', ''Maybe'', ''Not Interested'', ''No Response'']"

definition priority_line :: "string \<Rightarrow> bool" where
  \<comment> \<open>The test of \<open>score_lead\<close> for a line that sets the priority.\<close>
  "priority_line line = startswith (strip (lower line)) ''priority''"

definition enriched_fields :: "string list" where
  "enriched_fields = [''company'', ''title'', ''industry'', ''location'']"

section \<open>Example runs\<close>

definition world0 :: world where
  "world0 = \<lparr>llm_calls = 0, rand_calls = 0, send_calls = 0\<rparr>"

definition ada :: lead where
  "ada = [(''first_name'', PStr ''Ada''), (''last_name'', PStr ''Byron''),
          (''email'', PStr ''ada@example.com'')]"

definition refused_env :: env where
  \<comment> \<open>Three well-formed completions with priority 1; every delivery is refused.\<close>
  "refused_env =
     \<lparr>llm_generate = (\<lambda>k. if k = 0 then Inr ''company: Acme\<newline>persona: Builder''
                          else if k = 1 then Inr ''priority: 1\<newline>reason: small account''
                          else Inr ''Subject: Hello\<newline>\<newline>Body: Shall we talk?''),
      random_random = (\<lambda>k. 0),
      send_email = (\<lambda>k. Some ''Connection refused'')\<rparr>"

definition replying_env :: env where
  \<comment> \<open>Priority 5, a random draw of 0, a reply, and the label \<open>Unsure\<close>.\<close>
  "replying_env =
     \<lparr>llm_generate = (\<lambda>k. if k = 0 then Inr ''company: Acme\<newline>persona: Builder''
                          else if k = 1 then Inr ''priority: 5\<newline>reason: large account''
                          else if k = 2 then Inr ''Subject: Hello\<newline>\<newline>Body: Shall we talk?''
                          else if k = 3 then Inr ''Maybe next quarter.''
                          else if k = 4 then Inr ''Unsure''
                          else Inr ''Insights''),
      random_random = (\<lambda>k. 0),
      send_email = (\<lambda>k. None)\<rparr>"

definition ada_frame :: dataframe where
  "ada_frame = \<lparr>columns = [''first_name'', ''last_name'', ''email''], records = [ada]\<rparr>"

definition one_float :: "unit floats" where
  \<comment> \<open>Floats that are all one value, for runs that do not depend on them.\<close>
  "one_float =
     \<lparr>float_of_int = (\<lambda>i. Inr (Some ())), float_of_str = (\<lambda>s. None),
      float_mean = (\<lambda>vs. ()), float_zero = ()\<rparr>"

definition sent_frame :: dataframe where
  \<comment> \<open>A frame with a row whose status is \<open>sent\<close>.\<close>
  "sent_frame =
     \<lparr>columns = [''first_name'', ''status''],
      records = [[(''first_name'', PStr ''Ada''), (''status'', PStr ''sent'')],
                 [(''first_name'', PStr ''Bob''), (''status'', PStr ''replied'')],
                 [(''first_name'', PStr ''Cy''), (''status'', PStr ''no_response'')]]\<rparr>"

definition broken_reason_env :: env where
  \<comment> \<open>The scoring completion has a \<open>reason\<close> line without a colon.\<close>
  "broken_reason_env =
     \<lparr>llm_generate = (\<lambda>k. if k = 0 then Inr ''company: Acme\<newline>persona: Builder''
                          else if k = 1 then Inr ''priority: 4\<newline>reason unknown''
                          else Inr ''Subject: Hello\<newline>\<newline>Body: Shall we talk?''),
      random_random = (\<lambda>k. 0),
      send_email = (\<lambda>k. None)\<rparr>"

definition unpack_error :: string where
  "unpack_error = ''not enough values to unpack (expected 2, got 1)''"

definition ada_enriched :: lead where
  "ada_enriched =
     ada @ [(''company'', PStr ''Acme''), (''title'', PStr []), (''industry'', PStr []),
            (''location'', PStr []), (''persona'', PStr ''Builder''), (''persona_desc'', PStr [])]"

definition ada_failed :: lead where
  \<comment> \<open>The record of \<open>ada_frame\<close> after a run in which enrichment raised.\<close>
  "ada_failed =
     ada @ [(''persona'', PStr []), (''persona_desc'', PStr []), (''priority'', PStr []),
            (''priority_reason'', PStr []), (''email_subject'', PStr []),
            (''email_body'', PStr []), (''status'', PStr ''error: connection lost''),
            (''response_text'', PStr []), (''response_category'', PStr [])]"

definition errored_frame :: dataframe where
  \<comment> \<open>The output of a run whose only record failed before scoring.\<close>
  "errored_frame =
     \<lparr>columns = [''first_name'', ''last_name'', ''email''] @ output_columns,
      records = [ada_failed]\<rparr>"

definition ada_company_frame :: dataframe where
  \<comment> \<open>As \<open>ada_frame\<close>, with a company column whose cell is empty.\<close>
  "ada_company_frame =
     \<lparr>columns = [''first_name'', ''last_name'', ''email'', ''company''], records = [ada]\<rparr>"

definition connection_lost :: string where
  "connection_lost = ''connection lost''"

definition failing_env :: "nat \<Rightarrow> env" where
  "failing_env n =
     \<lparr>llm_generate = (\<lambda>k. if k = n then Inl connection_lost else llm_generate replying_env k),
      random_random = (\<lambda>k. 0),
      send_email = (\<lambda>k. None)\<rparr>"

definition world_at :: "nat \<Rightarrow> nat \<Rightarrow> nat \<Rightarrow> world" where
  "world_at a b c = \<lparr>llm_calls = a, rand_calls = b, send_calls = c\<rparr>"

definition ada_scored :: lead where
  "ada_scored =
     ada_enriched @ [(''priority'', PInt 5), (''priority_reason'', PStr ''large account'')]"

definition ada_drafted :: lead where
  "ada_drafted =
     ada_scored @ [(''email_subject'', PStr ''Hello''), (''email_body'', PStr ''Shall we talk?'')]"

definition ada_sent :: lead where
  "ada_sent = ada_drafted @ [(''status'', PStr ''sent'')]"

section \<open>Basic facts\<close>

lemma map_of_setitem: "map_of (setitem l k v) = (map_of l)(k \<mapsto> v)"
  by (simp add: setitem_def update_conv')

lemma get_setitem: "get (setitem l k v) k' = (if k' = k then v else get l k')"
  by (simp add: get_def map_of_setitem)

lemma get_set_error: "get (set_error l e) ''status'' = PStr (''error: '' @ e)"
  by (simp add: set_error_def get_setitem)

lemma get_no_response:
  "get (no_response l) ''status'' = PStr ''no_response''"
  "get (no_response l) ''response_category'' = PStr ''No Response''"
  by (simp_all add: no_response_def get_setitem)

lemma get_replied_with:
  "get (replied_with l r c) ''status'' = PStr ''replied''"
  "get (replied_with l r c) ''response_category'' = PStr c"
  by (simp_all add: replied_with_def get_setitem)

lemma main_loop_length: "length (snd (main_loop E w rows)) = length rows"
proof (induction rows arbitrary: w)
  case Nil
  show ?case by simp
next
  case (Cons l rows)
  obtain w1 l1 where p: "process_lead E w l = (w1, l1)" by (cases "process_lead E w l")
  obtain w2 ls where m: "main_loop E w1 rows = (w2, ls)" by (cases "main_loop E w1 rows")
  from Cons.IH [of w1] m have "length ls = length rows" by simp
  then show ?case by (simp add: p m)
qed

section \<open>The status a record ends with\<close>

lemma simulate_status:
  assumes "simulate_and_classify_responses E w l = (w', Inr l')"
  shows "get l' ''status'' = PStr ''no_response'' \<or> get l' ''status'' = PStr ''replied''"
  using assms
  by (auto simp: simulate_and_classify_responses_def get_no_response get_replied_with
           split: prod.splits sum.splits if_splits)

lemma process_lead_status:
  "final_status (get (snd (process_lead E w l)) ''status'') \<and>
   \<not> delivery_status (get (snd (process_lead E w l)) ''status'')"
proof -
  have err: "\<And>l e. final_status (get (set_error l e) ''status'') \<and>
      \<not> delivery_status (get (set_error l e) ''status'')"
    by (simp add: get_set_error final_status_def delivery_status_def startswith_def)
  have sim: "\<And>w l w' l'. simulate_and_classify_responses E w l = (w', Inr l') \<Longrightarrow>
      final_status (get l' ''status'') \<and> \<not> delivery_status (get l' ''status'')"
    using simulate_status by (fastforce simp: final_status_def delivery_status_def startswith_def)
  show ?thesis
    unfolding process_lead_def
    by (auto split: prod.splits sum.splits simp: err dest: sim)
qed

lemma main_loop_status:
  "list_all (\<lambda>l. final_status (get l ''status'') \<and> \<not> delivery_status (get l ''status''))
     (snd (main_loop E w rows))"
proof (induction rows arbitrary: w)
  case Nil
  show ?case by simp
next
  case (Cons l rows)
  obtain w1 l1 where p: "process_lead E w l = (w1, l1)" by (cases "process_lead E w l")
  obtain w2 ls where m: "main_loop E w1 rows = (w2, ls)" by (cases "main_loop E w1 rows")
  from process_lead_status [of E w l] p
  have "final_status (get l1 ''status'') \<and> \<not> delivery_status (get l1 ''status'')" by simp
  moreover from Cons.IH [of w1] m
  have "list_all (\<lambda>l. final_status (get l ''status'') \<and> \<not> delivery_status (get l ''status'')) ls"
    by simp
  ultimately show ?case by (simp add: p m)
qed

text \<open>
  Claim C9.  Every record the orchestrator emits ends with the status \<open>no_response\<close>,
  \<open>replied\<close> or a string that starts with \<open>error: \<close>; it never ends with
  \<open>sent\<close> or \<open>send_error: ...\<close>, because response simulation writes the status in
  both of its branches after delivery has set it.  This holds for the loop over any rows
  and for the records \<open>main\<close> hands to the output table.
\<close>

theorem final_status_of_every_record:
  "list_all (\<lambda>l. final_status (get l ''status'') \<and> \<not> delivery_status (get l ''status''))
     (snd (main_loop E w rows)) \<and>
   list_all (\<lambda>l. final_status (get l ''status'') \<and> \<not> delivery_status (get l ''status''))
     (fst (snd (main E w F df)))"
proof -
  obtain w1 processed
    where m: "main_loop E w (to_dict_records (foldl add_column df output_columns)) = (w1, processed)"
    by (cases "main_loop E w (to_dict_records (foldl add_column df output_columns))")
  obtain w2 rep where g: "generate_report E w1 F (DataFrame processed) = (w2, rep)"
    by (cases "generate_report E w1 F (DataFrame processed)")
  have "fst (snd (main E w F df)) = processed"
    unfolding main_def by (simp only: m g prod.case fst_conv snd_conv)
  moreover have "snd (main_loop E w (to_dict_records (foldl add_column df output_columns))) = processed"
    by (simp only: m snd_conv)
  ultimately have "fst (snd (main E w F df)) =
      snd (main_loop E w (to_dict_records (foldl add_column df output_columns)))"
    by (simp only:)
  then show ?thesis
    using main_loop_status [of E w rows]
      main_loop_status [of E w "to_dict_records (foldl add_column df output_columns)"]
    by (simp only: simp_thms)
qed

section \<open>The counts of the report\<close>

lemma cell_eq_PStr: "cell r c = PStr x \<longleftrightarrow> get r c = PStr x"
  by (simp add: cell_def get_def split: option.splits)

lemma records_DataFrame: "records (DataFrame rows) = rows"
  by (simp add: DataFrame_def)

lemma count_status_DataFrame:
  "count_status (DataFrame rows) names =
     length (filter (\<lambda>l. \<exists>n \<in> set names. get l ''status'' = PStr n) rows)"
  by (auto simp: count_status_def column_def records_DataFrame filter_map o_def cell_eq_PStr
           intro!: arg_cong [where f = length] filter_cong)

lemma count_status_rows:
  "count_status df names =
     length (filter (\<lambda>r. \<exists>n \<in> set names. cell r ''status'' = PStr n) (records df))"
  by (auto simp: count_status_def column_def filter_map o_def
           intro!: arg_cong [where f = length] filter_cong)

lemma generate_report_counts:
  assumes "generate_report E w F df = (w', Inr s)"
  shows "sent s = count_status df [''sent'', ''replied'']"
    and "replied s = count_status df [''replied'']"
  using assms
  by (auto simp: generate_report_def split: if_splits prod.splits sum.splits)

text \<open>
  Claim C10.  On any frame, the Sent count of the report is the number of rows whose
  status is \<open>sent\<close> or \<open>replied\<close> (and the Replied count the number of rows whose
  status is \<open>replied\<close>).  For every record set the orchestrator produces the two are
  equal: whenever \<open>main\<close> gets as far as a report, Sent equals Replied.
\<close>

theorem sent_count_equals_replied_count:
  "(generate_report E w F df = (w', Inr s) \<longrightarrow>
      sent s = length (filter (\<lambda>r. cell r ''status'' = PStr ''sent'' \<or>
                                   cell r ''status'' = PStr ''replied'') (records df)) \<and>
      replied s = length (filter (\<lambda>r. cell r ''status'' = PStr ''replied'') (records df))) \<and>
   (main E w F df = (w', processed, Inr s) \<longrightarrow>
      sent s = length (filter (\<lambda>l. get l ''status'' = PStr ''sent'' \<or>
                                   get l ''status'' = PStr ''replied'') processed) \<and>
      replied s = length (filter (\<lambda>l. get l ''status'' = PStr ''replied'') processed) \<and>
      sent s = replied s)"
proof (intro conjI impI)
  assume g: "generate_report E w F df = (w', Inr s)"
  show "sent s = length (filter (\<lambda>r. cell r ''status'' = PStr ''sent'' \<or>
                                   cell r ''status'' = PStr ''replied'') (records df))"
    by (simp add: generate_report_counts [OF g] count_status_rows)
  show "replied s = length (filter (\<lambda>r. cell r ''status'' = PStr ''replied'') (records df))"
    by (simp add: generate_report_counts [OF g] count_status_rows)
next
  assume a: "main E w F df = (w', processed, Inr s)"
  obtain w1 where m: "main_loop E w (to_dict_records (foldl add_column df output_columns)) = (w1, processed)"
    and g: "generate_report E w1 F (DataFrame processed) = (w', Inr s)"
    using a unfolding main_def by (auto split: prod.splits)
  from main_loop_status [of E w "to_dict_records (foldl add_column df output_columns)"] m
  have "list_all (\<lambda>l. \<not> delivery_status (get l ''status'')) processed"
    by (simp add: list_all_iff)
  then have ns: "\<And>l. l \<in> set processed \<Longrightarrow> get l ''status'' \<noteq> PStr ''sent''"
    by (auto simp: list_all_iff delivery_status_def)
  show sa: "sent s = length (filter (\<lambda>l. get l ''status'' = PStr ''sent'' \<or>
                                      get l ''status'' = PStr ''replied'') processed)"
    by (simp add: generate_report_counts [OF g] count_status_DataFrame)
  show sb: "replied s = length (filter (\<lambda>l. get l ''status'' = PStr ''replied'') processed)"
    by (simp add: generate_report_counts [OF g] count_status_DataFrame)
  have "filter (\<lambda>l. get l ''status'' = PStr ''sent'' \<or> get l ''status'' = PStr ''replied'') processed
      = filter (\<lambda>l. get l ''status'' = PStr ''replied'') processed"
    by (rule filter_cong) (auto dest: ns)
  with sa sb show "sent s = replied s" by simp
qed

theorem sent_count_equals_replied_count_witness:
  "generate_report replying_env world0 one_float sent_frame =
     (world_at 1 0 0, Inr \<lparr>total_leads = 3, sent = 2, replied = 1, avg_priority = Avg ()\<rparr>) \<and>
   length (filter (\<lambda>r. cell r ''status'' = PStr ''sent'' \<or> cell r ''status'' = PStr ''replied'')
             (records sent_frame)) = 2 \<and>
   length (filter (\<lambda>r. cell r ''status'' = PStr ''replied'') (records sent_frame)) = 1 \<and>
   snd (snd (main replying_env world0 one_float ada_frame)) =
     Inr \<lparr>total_leads = 1, sent = 1, replied = 1, avg_priority = Avg ()\<rparr> \<and>
   map (\<lambda>l. get l ''status'') (fst (snd (main replying_env world0 one_float ada_frame))) =
     [PStr ''replied'']"
proof -
  have g: "generate_report replying_env world0 one_float sent_frame =
     (world_at 1 0 0, Inr \<lparr>total_leads = 3, sent = 2, replied = 1, avg_priority = Avg ()\<rparr>)"
    by code_simp
  have r: "snd (snd (main replying_env world0 one_float ada_frame)) =
      Inr \<lparr>total_leads = 1, sent = 1, replied = 1, avg_priority = Avg ()\<rparr>"
    by code_simp
  then have m: "main replying_env world0 one_float ada_frame =
      (fst (main replying_env world0 one_float ada_frame),
       fst (snd (main replying_env world0 one_float ada_frame)),
       Inr \<lparr>total_leads = 1, sent = 1, replied = 1, avg_priority = Avg ()\<rparr>)"
    by (metis prod.collapse)
  have p: "map (\<lambda>l. get l ''status'') (fst (snd (main replying_env world0 one_float ada_frame))) =
     [PStr ''replied'']"
    by code_simp
  from sent_count_equals_replied_count [of replying_env world0 one_float sent_frame
      "world_at 1 0 0" "\<lparr>total_leads = 3, sent = 2, replied = 1, avg_priority = Avg ()\<rparr>"] g
  have c: "length (filter (\<lambda>r. cell r ''status'' = PStr ''sent'' \<or>
                              cell r ''status'' = PStr ''replied'') (records sent_frame)) = 2 \<and>
           length (filter (\<lambda>r. cell r ''status'' = PStr ''replied'') (records sent_frame)) = 1"
    by simp
  from c g r p show ?thesis by blast
qed

section \<open>Failure of a stage\<close>

text \<open>
  Claim C7.  When enrichment, scoring, drafting or response simulation raises, the
  orchestrator catches the exception and sets the status of the record to
  \<open>error: <detail>\<close>; no later stage runs (the world is the one the failing stage
  left, and the record is the one the last finished stage returned, changed in its
  status only); the record is still emitted, and the loop goes on with the next record.
\<close>

theorem stage_failure_isolated:
  "(enrich_lead E w l = (w1, Inl e) \<longrightarrow> process_lead E w l = (w1, set_error l e)) \<and>
   (enrich_lead E w l = (w1, Inr l1) \<and> score_lead E w1 l1 = (w2, Inl e)
      \<longrightarrow> process_lead E w l = (w2, set_error l1 e)) \<and>
   (enrich_lead E w l = (w1, Inr l1) \<and> score_lead E w1 l1 = (w2, Inr l2) \<and>
    draft_email E w2 l2 = (w3, Inl e)
      \<longrightarrow> process_lead E w l = (w3, set_error l2 e)) \<and>
   (enrich_lead E w l = (w1, Inr l1) \<and> score_lead E w1 l1 = (w2, Inr l2) \<and>
    draft_email E w2 l2 = (w3, Inr l3) \<and> deliver E w3 l3 = (w4, l4) \<and>
    simulate_and_classify_responses E w4 l4 = (w5, Inl e)
      \<longrightarrow> process_lead E w l = (w5, set_error l4 e)) \<and>
   get (set_error l' e') ''status'' = PStr (''error: '' @ e') \<and>
   (k \<noteq> ''status'' \<longrightarrow> get (set_error l' e') k = get l' k) \<and>
   (process_lead E w l = (wa, la) \<and> main_loop E wa rows = (wb, ls)
      \<longrightarrow> main_loop E w (l # rows) = (wb, la # ls)) \<and>
   length (snd (main_loop E w rows)) = length rows"
  by (simp add: process_lead_def get_set_error main_loop_length)
     (simp add: set_error_def get_setitem)

theorem stage_failure_isolated_witness:
  "process_lead (failing_env 0) world0 ada = (world_at 1 0 0, set_error ada connection_lost) \<and>
   process_lead broken_reason_env world0 ada = (world_at 2 0 0, set_error ada_enriched unpack_error) \<and>
   process_lead (failing_env 2) world0 ada = (world_at 3 0 0, set_error ada_scored connection_lost) \<and>
   process_lead (failing_env 3) world0 ada = (world_at 4 1 1, set_error ada_sent connection_lost) \<and>
   get (set_error ada_sent connection_lost) ''status'' = PStr (''error: '' @ connection_lost) \<and>
   get (set_error ada_sent connection_lost) ''email_body'' = get ada_sent ''email_body'' \<and>
   map (\<lambda>l. get l ''status'') (snd (main_loop (failing_env 0) world0 [ada, ada])) =
     [PStr ''error: connection lost'', PStr ''replied'']"
proof -
  have a1: "enrich_lead (failing_env 0) world0 ada = (world_at 1 0 0, Inl connection_lost)"
    by code_simp
  have b1: "enrich_lead broken_reason_env world0 ada = (world_at 1 0 0, Inr ada_enriched)"
    by code_simp
  have b2: "score_lead broken_reason_env (world_at 1 0 0) ada_enriched =
      (world_at 2 0 0, Inl unpack_error)"
    by code_simp
  have c1: "enrich_lead (failing_env 2) world0 ada = (world_at 1 0 0, Inr ada_enriched)"
    by code_simp
  have c2: "score_lead (failing_env 2) (world_at 1 0 0) ada_enriched =
      (world_at 2 0 0, Inr ada_scored)"
    by code_simp
  have c3: "draft_email (failing_env 2) (world_at 2 0 0) ada_scored =
      (world_at 3 0 0, Inl connection_lost)"
    by code_simp
  have d1: "enrich_lead (failing_env 3) world0 ada = (world_at 1 0 0, Inr ada_enriched)"
    by code_simp
  have d2: "score_lead (failing_env 3) (world_at 1 0 0) ada_enriched =
      (world_at 2 0 0, Inr ada_scored)"
    by code_simp
  have d3: "draft_email (failing_env 3) (world_at 2 0 0) ada_scored =
      (world_at 3 0 0, Inr ada_drafted)"
    by code_simp
  have d4: "deliver (failing_env 3) (world_at 3 0 0) ada_drafted = (world_at 3 0 1, ada_sent)"
    by code_simp
  have d5: "simulate_and_classify_responses (failing_env 3) (world_at 3 0 1) ada_sent =
      (world_at 4 1 1, Inl connection_lost)"
    by code_simp
  have k: "''email_body'' \<noteq> ''status''" by simp
  have m: "map (\<lambda>l. get l ''status'') (snd (main_loop (failing_env 0) world0 [ada, ada])) =
     [PStr ''error: connection lost'', PStr ''replied'']"
    by code_simp
  have A: "process_lead (failing_env 0) world0 ada = (world_at 1 0 0, set_error ada connection_lost)"
    using a1 stage_failure_isolated [of "failing_env 0" world0 ada "world_at 1 0 0" connection_lost]
    by blast
  have B: "process_lead broken_reason_env world0 ada =
      (world_at 2 0 0, set_error ada_enriched unpack_error)"
    using b1 b2 stage_failure_isolated [of broken_reason_env world0 ada "world_at 1 0 0"
      unpack_error ada_enriched "world_at 2 0 0"]
    by blast
  have C: "process_lead (failing_env 2) world0 ada =
      (world_at 3 0 0, set_error ada_scored connection_lost)"
    using c1 c2 c3 stage_failure_isolated [of "failing_env 2" world0 ada "world_at 1 0 0"
      connection_lost ada_enriched "world_at 2 0 0" ada_scored "world_at 3 0 0"]
    by blast
  have D: "process_lead (failing_env 3) world0 ada =
      (world_at 4 1 1, set_error ada_sent connection_lost) \<and>
      get (set_error ada_sent connection_lost) ''status'' = PStr (''error: '' @ connection_lost) \<and>
      get (set_error ada_sent connection_lost) ''email_body'' = get ada_sent ''email_body''"
    using d1 d2 d3 d4 d5 k stage_failure_isolated [of "failing_env 3" world0 ada "world_at 1 0 0"
      connection_lost ada_enriched "world_at 2 0 0" ada_scored "world_at 3 0 0" ada_drafted
      "world_at 3 0 1" ada_sent "world_at 4 1 1" ada_sent connection_lost "''email_body''"]
    by blast
  from A B C D m show ?thesis by blast
qed

section \<open>Defects shown by evaluation\<close>

text \<open>
  Claim C1 on the code.  A delivery that fails sets the status \<open>send_error: <detail>\<close>
  and the record goes on to response simulation, but that stage overwrites the status:
  with every delivery refused and a priority of 1, the record ends as \<open>no_response\<close>.
\<close>

theorem send_error_status_overwritten:
  "send_email refused_env 0 = Some ''Connection refused'' \<and>
   get (snd (deliver refused_env world0
          (draft_fields ''Subject: Hello\<newline>\<newline>Body: Shall we talk?'' ada))) ''status'' =
     PStr ''send_error: Connection refused'' \<and>
   get (snd (process_lead refused_env world0 ada)) ''status'' = PStr ''no_response'' \<and>
   get (snd (process_lead refused_env world0 ada)) ''response_category'' = PStr ''No Response''"
  by code_simp

text \<open>
  Claim C4 on the code.  A \<open>reason\<close> line without a colon makes the scoring stage raise
  ValueError, and an empty classification completion makes response simulation raise
  IndexError; the orchestrator turns the first into the status \<open>error: ...\<close>.
\<close>

theorem parsing_raises:
  "score_fields ''priority: 4\<newline>reason unknown'' ada = Inl unpack_error \<and>
   label_clean [] = Inl ''list index out of range'' \<and>
   get (snd (process_lead broken_reason_env world0 ada)) ''status'' =
     PStr (''error: '' @ unpack_error)"
  by code_simp

text \<open>
  Claim C5 on the code.  The empty cell of a column that exists is NaN, which is true in
  Python, so \<open>or\<close> keeps it: with a company column whose cell is empty the record
  keeps NaN although the completion offers \<open>Acme\<close>, while without the column the
  record takes \<open>Acme\<close>.
\<close>

theorem nan_field_not_filled:
  "map_of (parse_pairs ''company: Acme\<newline>persona: Builder'') ''company'' = Some ''Acme'' \<and>
   map (\<lambda>l. get l ''company'') (to_dict_records ada_company_frame) = [PNaN] \<and>
   map (\<lambda>l. get l ''company'')
     (fst (snd (main replying_env world0 one_float ada_company_frame))) = [PNaN] \<and>
   map (\<lambda>l. get l ''company'')
     (fst (snd (main replying_env world0 one_float ada_frame))) = [PStr ''Acme'']"
  by code_simp

section \<open>The priority\<close>

lemma foldl_digits_nonneg:
  "0 \<le> a \<Longrightarrow> list_all isdecimal s \<Longrightarrow> 0 \<le> foldl (\<lambda>a c. 10 * a + digit_value c) a s"
  by (induction s arbitrary: a) (auto simp: isdecimal_def digit_value_def Let_def)

lemma py_int_nonneg: "py_int s = Some n \<Longrightarrow> 0 \<le> n"
  using foldl_digits_nonneg [of 0 s] by (auto simp: py_int_def split: if_splits)

lemma score_lines_priority:
  assumes "score_lines ls p0 r0 = Inr (p, r)"
  shows "p = p0 \<and> (\<forall>line \<in> set ls. \<not> priority_line line)
       \<or> (\<exists>line \<in> set ls. priority_line line \<and>
             p = (case py_int (filter isdigit line) of Some n \<Rightarrow> n | None \<Rightarrow> 3))"
  using assms
proof (induction ls arbitrary: p0 r0)
  case Nil
  then show ?case by simp
next
  case (Cons line rest)
  let ?p1 = "if priority_line line
             then (case py_int (filter isdigit line) of Some n \<Rightarrow> n | None \<Rightarrow> 3) else p0"
  from Cons.prems obtain r1 where rec: "score_lines rest ?p1 r1 = Inr (p, r)"
    by (auto simp: priority_line_def Let_def split: if_splits option.splits)
  from Cons.IH [OF rec] show ?case
    by (auto split: if_splits)
qed

text \<open>
  Claim C2, amended.  When scoring returns, \<open>priority\<close> is a non-negative integer,
  not always one in [1,5]: it is 3, or the value of the decimal digits of a line that
  starts with \<open>priority\<close>; and it is exactly 3 when no such line yields a valid
  integer.
\<close>

theorem priority_value:
  assumes "score_fields out l = Inr l'"
  shows "\<exists>p. get l' ''priority'' = PInt p \<and> 0 \<le> p \<and>
           ((\<forall>line \<in> set (splitlines out).
                priority_line line \<longrightarrow> py_int (filter isdigit line) = None) \<longrightarrow> p = 3) \<and>
           (p = 3 \<or> (\<exists>line \<in> set (splitlines out).
                priority_line line \<and> py_int (filter isdigit line) = Some p))"
proof -
  from assms obtain p r where sl: "score_lines (splitlines out) 3 [] = Inr (p, r)"
    and l': "l' = setitem (setitem l ''priority'' (PInt p)) ''priority_reason'' (PStr r)"
    by (auto simp: score_fields_def split: sum.splits)
  have g: "get l' ''priority'' = PInt p" by (simp add: l' get_setitem)
  from score_lines_priority [OF sl]
  have c: "p = 3 \<or> (\<exists>line \<in> set (splitlines out). priority_line line \<and>
             p = (case py_int (filter isdigit line) of Some n \<Rightarrow> n | None \<Rightarrow> 3))"
    by blast
  then have nn: "0 \<le> p" by (auto split: option.splits dest: py_int_nonneg)
  from c have d: "(\<forall>line \<in> set (splitlines out).
                priority_line line \<longrightarrow> py_int (filter isdigit line) = None) \<longrightarrow> p = 3"
    by auto
  from c have e: "p = 3 \<or> (\<exists>line \<in> set (splitlines out).
                priority_line line \<and> py_int (filter isdigit line) = Some p)"
    by (auto split: option.splits)
  from g nn d e show ?thesis by blast
qed

theorem priority_value_witness:
  "score_fields ''Priority: high'' ada =
     Inr (setitem (setitem ada ''priority'' (PInt 3)) ''priority_reason'' (PStr [])) \<and>
   splitlines ''Priority: high'' = [''Priority: high''] \<and>
   priority_line ''Priority: high'' \<and>
   py_int (filter isdigit ''Priority: high'') = None \<and>
   (\<exists>p. get (setitem (setitem ada ''priority'' (PInt 3)) ''priority_reason'' (PStr [])) ''priority''
          = PInt p \<and> 0 \<le> p \<and> p = 3)"
proof -
  have a: "score_fields ''Priority: high'' ada =
     Inr (setitem (setitem ada ''priority'' (PInt 3)) ''priority_reason'' (PStr []))"
    by code_simp
  have b: "splitlines ''Priority: high'' = [''Priority: high'']" by code_simp
  have c: "priority_line ''Priority: high''" by code_simp
  have d: "py_int (filter isdigit ''Priority: high'') = None" by code_simp
  from b d have "\<forall>line \<in> set (splitlines ''Priority: high'').
      priority_line line \<longrightarrow> py_int (filter isdigit line) = None"
    by simp
  with priority_value [OF a] a b c d show ?thesis by blast
qed

text \<open>The claim as stated fails: the completion \<open>priority: 9\<close> gives the priority 9.\<close>

theorem priority_out_of_range:
  "score_fields ''priority: 9'' [] =
     Inr [(''priority'', PInt 9), (''priority_reason'', PStr [])] \<and>
   \<not> priority_in_range (PInt 9)"
  by code_simp

section \<open>The body of the draft\<close>

lemma strip_eq_Nil: "strip s = [] \<longleftrightarrow> (\<forall>c \<in> set s. isspace c)"
proof -
  have "strip s = [] \<longleftrightarrow> dropWhile isspace (rev (dropWhile isspace s)) = []"
    by (simp add: strip_def)
  also have "\<dots> \<longleftrightarrow> (\<forall>c \<in> set (dropWhile isspace s). isspace c)"
    by simp
  also have "\<dots> \<longleftrightarrow> dropWhile isspace s = []"
    by (metis dropWhile_eq_Nil_conv dropWhile_idem)
  also have "\<dots> \<longleftrightarrow> (\<forall>c \<in> set s. isspace c)"
    by simp
  finally show ?thesis .
qed

text \<open>
  Claim C3, amended.  Without a \<open>Subject:\<close> marker the body is the stripped
  completion, which is non-empty exactly when the completion has a character that is not
  whitespace.  With \<open>Subject:\<close> and no \<open>Body:\<close> after it the body is empty; with
  both it is the stripped text after the first \<open>Body:\<close>.
\<close>

theorem draft_body:
  "(\<not> contains ''Subject:'' out \<longrightarrow>
      get (draft_fields out l) ''email_body'' = PStr (strip out) \<and>
      (strip out \<noteq> [] \<longleftrightarrow> (\<exists>c \<in> set out. \<not> isspace c))) \<and>
   (split_once ''Subject:'' out = Some (u, parts) \<and> \<not> contains ''Body:'' parts \<longrightarrow>
      get (draft_fields out l) ''email_body'' = PStr []) \<and>
   (split_once ''Subject:'' out = Some (u, parts) \<and> split_once ''Body:'' parts = Some (subj, bod) \<longrightarrow>
      get (draft_fields out l) ''email_body'' = PStr (strip bod))"
  by (auto simp: draft_fields_def contains_def get_setitem strip_eq_Nil split: option.splits)

theorem draft_body_witness:
  "\<not> contains ''Subject:'' ''Hello there'' \<and>
   get (draft_fields ''Hello there'' ada) ''email_body'' = PStr (strip ''Hello there'') \<and>
   strip ''Hello there'' = ''Hello there'' \<and>
   split_once ''Subject:'' ''Subject: Hello'' = Some ([], '' Hello'') \<and>
   \<not> contains ''Body:'' '' Hello'' \<and>
   get (draft_fields ''Subject: Hello'' ada) ''email_body'' = PStr [] \<and>
   split_once ''Subject:'' ''Subject: Hello Body: Shall we talk?'' =
     Some ([], '' Hello Body: Shall we talk?'') \<and>
   split_once ''Body:'' '' Hello Body: Shall we talk?'' = Some ('' Hello '', '' Shall we talk?'') \<and>
   get (draft_fields ''Subject: Hello Body: Shall we talk?'' ada) ''email_body'' =
     PStr (strip '' Shall we talk?'')"
proof -
  have a: "\<not> contains ''Subject:'' ''Hello there''" by code_simp
  have b: "strip ''Hello there'' = ''Hello there''" by code_simp
  have c: "split_once ''Subject:'' ''Subject: Hello'' = Some ([], '' Hello'')" by code_simp
  have d: "\<not> contains ''Body:'' '' Hello''" by code_simp
  have e: "split_once ''Subject:'' ''Subject: Hello Body: Shall we talk?'' =
     Some ([], '' Hello Body: Shall we talk?'')" by code_simp
  have f: "split_once ''Body:'' '' Hello Body: Shall we talk?'' =
     Some ('' Hello '', '' Shall we talk?'')" by code_simp
  from a b draft_body [of "''Hello there''" ada]
  have 1: "get (draft_fields ''Hello there'' ada) ''email_body'' = PStr (strip ''Hello there'')"
    by blast
  from c d draft_body [of "''Subject: Hello''" ada "[]" "'' Hello''"]
  have 2: "get (draft_fields ''Subject: Hello'' ada) ''email_body'' = PStr []"
    by blast
  from e f draft_body [of "''Subject: Hello Body: Shall we talk?''" ada "[]"
      "'' Hello Body: Shall we talk?''" "'' Hello ''" "'' Shall we talk?''"]
  have 3: "get (draft_fields ''Subject: Hello Body: Shall we talk?'' ada) ''email_body'' =
     PStr (strip '' Shall we talk?'')"
    by blast
  from a b c d e f 1 2 3 show ?thesis by blast
qed

text \<open>The claim as stated fails: a subject without a body leaves the body empty.\<close>

theorem draft_body_empty:
  "get (draft_fields ''Subject: Hello'' ada) ''email_body'' = PStr []"
  by code_simp

section \<open>The response category\<close>

lemma split_ws_from_tokens:
  "list_all (\<lambda>x. \<not> isspace x) cur \<Longrightarrow>
     list_all (\<lambda>t. t \<noteq> [] \<and> list_all (\<lambda>x. \<not> isspace x) t) (split_ws_from cur s)"
  by (induction s arbitrary: cur) simp_all

lemma label_clean_token:
  assumes "label_clean label = Inr c"
  shows "c \<noteq> [] \<and> list_all (\<lambda>x. \<not> isspace x) c"
proof -
  from assms obtain l ls ts where "split_ws (strip l) = c # ts"
    by (auto simp: label_clean_def split: list.splits)
  with split_ws_from_tokens [of "[]" "strip l"] show ?thesis
    by (simp add: split_ws_def)
qed

text \<open>
  Claim C6, amended.  A record that completes response simulation has the category
  \<open>No Response\<close> when no reply was simulated; otherwise its category is the first
  whitespace-delimited token of the first line of the classification completion (the
  second completion of the stage), a non-empty string without whitespace that is not
  checked against the list of labels.
\<close>

theorem response_category_value:
  assumes "simulate_and_classify_responses E w l = (w', Inr l')"
  shows "(get l' ''status'' = PStr ''no_response'' \<and>
          get l' ''response_category'' = PStr ''No Response'') \<or>
         (\<exists>label c. llm_generate E (Suc (llm_calls w)) = Inr label \<and>
            label_clean label = Inr c \<and> c \<noteq> [] \<and> list_all (\<lambda>x. \<not> isspace x) c \<and>
            get l' ''status'' = PStr ''replied'' \<and>
            get l' ''response_category'' = PStr c)"
  using assms
  by (auto simp: simulate_and_classify_responses_def decide_simulate_def generate_def
                 get_no_response get_replied_with
           split: prod.splits sum.splits if_splits dest: label_clean_token)

theorem response_category_value_witness:
  "simulate_and_classify_responses replying_env \<lparr>llm_calls = 3, rand_calls = 0, send_calls = 1\<rparr>
     [(''priority'', PInt 5)] =
     (\<lparr>llm_calls = 5, rand_calls = 1, send_calls = 1\<rparr>,
      Inr (replied_with [(''priority'', PInt 5)] ''Maybe next quarter.'' ''Unsure'')) \<and>
   (\<exists>label c. llm_generate replying_env 4 = Inr label \<and> label_clean label = Inr c \<and>
      get (replied_with [(''priority'', PInt 5)] ''Maybe next quarter.'' ''Unsure'')
        ''response_category'' = PStr c)"
proof -
  have a: "simulate_and_classify_responses replying_env
      \<lparr>llm_calls = 3, rand_calls = 0, send_calls = 1\<rparr> [(''priority'', PInt 5)] =
     (\<lparr>llm_calls = 5, rand_calls = 1, send_calls = 1\<rparr>,
      Inr (replied_with [(''priority'', PInt 5)] ''Maybe next quarter.'' ''Unsure''))"
    by code_simp
  have b: "get (replied_with [(''priority'', PInt 5)] ''Maybe next quarter.'' ''Unsure'')
      ''status'' \<noteq> PStr ''no_response''"
    by code_simp
  from response_category_value [OF a] a b show ?thesis by (auto simp: numeral_eq_Suc)
qed

text \<open>The claim as stated fails: the label \<open>Unsure\<close> becomes the category.\<close>

theorem response_category_unlisted:
  "get (snd (process_lead replying_env world0 ada)) ''status'' = PStr ''replied'' \<and>
   get (snd (process_lead replying_env world0 ada)) ''response_category'' = PStr ''Unsure'' \<and>
   ''Unsure'' \<notin> set response_categories"
  by code_simp

section \<open>The average priority\<close>

text \<open>
  Claim C8 on the code.  The guard of the average tests whether the frame has rows, not
  whether a numeric priority is left: when the only record of a run fails before scoring
  (here the completion client raises at the first call), its priority stays the empty
  string of the added column, no numeric value is left, and the average of the report is
  NaN, not 0.0, whatever the floats are.
\<close>

theorem average_priority_nan:
  "main (failing_env 0) world0 F ada_frame =
     (world_at 2 0 0, [ada_failed],
      Inr \<lparr>total_leads = 1, sent = 0, replied = 0, avg_priority = AvgNaN\<rparr>) \<and>
   get ada_failed ''priority'' = PStr [] \<and>
   to_numeric F (column errored_frame ''priority'') = Inr [None] \<and>
   numeric_values [None :: 'f option] = [] \<and>
   average_priority F errored_frame = Inr AvgNaN"
proof -
  have ml: "main_loop (failing_env 0) world0
      (to_dict_records (foldl add_column ada_frame output_columns)) =
      (world_at 1 0 0, [ada_failed])"
    by code_simp
  have df: "DataFrame [ada_failed] = errored_frame" by code_simp
  have p: "get ada_failed ''priority'' = PStr []" by code_simp
  have col: "column errored_frame ''priority'' = [PStr []]" by code_simp
  have c1: "''priority'' \<in> set (columns errored_frame)" by code_simp
  have c2: "''status'' \<in> set (columns errored_frame)" by code_simp
  have b: "to_numeric F (column errored_frame ''priority'') = Inr [None]"
    by (simp add: col)
  have c: "numeric_values [None :: 'f option] = []" by (simp add: numeric_values_def)
  have d: "average_priority F errored_frame = Inr AvgNaN"
    by (simp add: average_priority_def c1 b mean_skipna_def numeric_values_def)
  have n: "length (records errored_frame) = 1" by (simp add: errored_frame_def)
  have s1: "count_status errored_frame [''sent'', ''replied''] = 0" by code_simp
  have s2: "count_status errored_frame [''replied''] = 0" by code_simp
  have g: "generate (failing_env 0) (world_at 1 0 0) =
      (world_at 2 0 0, Inr ''priority: 5\<newline>reason: large account'')"
    by code_simp
  have e: "generate_report (failing_env 0) (world_at 1 0 0) F errored_frame =
     (world_at 2 0 0, Inr \<lparr>total_leads = 1, sent = 0, replied = 0, avg_priority = AvgNaN\<rparr>)"
    unfolding generate_report_def
    by (simp only: c2 d g n s1 s2 if_True sum.case prod.case)
  have m: "main (failing_env 0) world0 F ada_frame =
     (world_at 2 0 0, [ada_failed],
      Inr \<lparr>total_leads = 1, sent = 0, replied = 0, avg_priority = AvgNaN\<rparr>)"
    unfolding main_def
    by (simp only: ml df e prod.case snd_conv)
  from m p b c d show ?thesis by blast
qed

section \<open>What enrichment keeps and fills\<close>

text \<open>
  On the four enriched fields the stage keeps every value that is true in Python, and
  replaces a value that is false (absent, \<open>None\<close>, the empty string, zero) by the
  parsed value for the key, or by the empty string when the completion has none.
\<close>

theorem enrichment_keeps_true_values:
  assumes "f \<in> set enriched_fields"
  shows "(truthy (get l f) \<longrightarrow> get (enrich_fields out l) f = get l f) \<and>
         (\<not> truthy (get l f) \<longrightarrow>
            get (enrich_fields out l) f =
              (case map_of (parse_pairs out) f of Some v \<Rightarrow> PStr v | None \<Rightarrow> PStr []))"
  using assms
  by (auto simp: enriched_fields_def enrich_fields_def Let_def get_setitem py_or_def
                 parsed_get_def split: option.splits)

theorem enrichment_keeps_true_values_witness:
  "''title'' \<in> set enriched_fields \<and>
   \<not> truthy (get ada ''title'') \<and>
   map_of (parse_pairs ''title: Engineer'') ''title'' = Some ''Engineer'' \<and>
   get (enrich_fields ''title: Engineer'' ada) ''title'' = PStr ''Engineer''"
proof -
  have a: "''title'' \<in> set enriched_fields" by code_simp
  have b: "\<not> truthy (get ada ''title'')" by code_simp
  have c: "map_of (parse_pairs ''title: Engineer'') ''title'' = Some ''Engineer''" by code_simp
  from enrichment_keeps_true_values [OF a, of ada "''title: Engineer''"] a b c
  show ?thesis by simp
qed

end
